theory Spec2Isabelle
  imports Main
begin

section \<open>The data loader of NMIG (src/DataLoader.ts)\<close>

text \<open>
  The loader is an event-driven program: \<open>populateTableWorker\<close> registers handlers on the
  MySQL query (\<open>error\<close>, \<open>result\<close>, \<open>end\<close>), on a private event emitter
  (\<open>chunkBuffered\<close>, \<open>chunkLoaded\<close>) and on every PostgreSQL copy stream (\<open>finish\<close>,
  \<open>error\<close>). The embedding keeps one function per handler, over an explicit world state,
  and a function \<open>fire\<close> that delivers one external event to its handler. Everything the
  handlers observe of the two databases, of the logger and of the parent process is a field
  of the world; the collaborators whose code is not part of the file (the CSV encoder, the
  consistency check, the table name resolver, whether a statement is rejected) are
  parameters, collected in the record \<open>env\<close>. The process is single-threaded: a handler is
  run to its end, with the calls it awaits, before the next event is delivered.
\<close>

subsection \<open>Values\<close>

text \<open>A source row: the ordered mapping from column name to value.\<close>

type_synonym row = "(string \<times> string) list"

text \<open>
  The statements the loader builds, by shape. \<open>NoSql\<close> is the empty string that the
  \<open>result\<close> handler passes to \<open>processDataError\<close>.
\<close>

datatype sql =
    ShowRole
  | SetRole string
  | DeleteFrom int
  | SelectFrom string string
  | CopyFrom string string string
  | NoSql

datatype signal = chunkBuffered | chunkLoaded

datatype event =
    QueryError string
  | QueryResult row
  | QueryEnd
  | CopyFinish
  | CopyError string

record Conversion =
  schema :: string
  delimiter :: string
  streamsHighWaterMark :: int
  logsDirPath :: string
  shouldMigrateOnlyData :: bool

record Chunk =
  chunkId :: int
  tableName :: string
  selectFieldList :: string
  rowsCnt :: int

text \<open>
  The collaborators taken as parameters: \<open>parse\<close> is json2csv's \<open>parse\<close> with the options of
  the \<open>result\<close> handler (\<open>Inl\<close> is the exception it throws); \<open>queryFails q n\<close> is the error
  with which the target client rejects statement \<open>q\<close> when it is issued as the \<open>n\<close>-th
  statement of the connection, if it does; \<open>dataTransferred\<close> is the consistency check;
  \<open>getTableName\<close> is \<open>extraConfigProcessor.getTableName(conversion, tableName, true)\<close>.
\<close>

record env =
  parse :: "row \<Rightarrow> string + string"
  queryFails :: "sql \<Rightarrow> nat \<Rightarrow> string option"
  dataTransferred :: "int \<Rightarrow> bool"
  getTableName :: "string \<Rightarrow> string"

text \<open>
  What \<open>getCopyStream\<close> binds for the handlers of one copy stream: its own parameters
  (among them \<open>dataBuffer\<close>, a reference to an array) and the array that
  \<open>Readable.from (dataBuffer)\<close> is piped from. Arrays live in a store and are named by
  their address, since the \<open>result\<close> handler, the readable stream and the copy stream's
  handlers all hold references to them.
\<close>

record copy_stream =
  cs_sqlCopy :: sql
  cs_sql :: sql
  cs_tableName :: string
  cs_dataPoolId :: int
  cs_role :: "string option"
  cs_dataBuffer :: nat
  cs_source :: nat

record world =
  sessionRole :: string
  queries :: "sql list"
  acquired :: nat
  released :: nat
  enableCalls :: "string list"
  ledger :: "int set"
  target :: "string list"
  sent :: "(string \<times> int) list"
  errors :: "(string \<times> sql) list"
  logs :: "(string \<times> sql option \<times> (string \<times> string) option) list"
  srcQueries :: "sql list"
  srcLive :: bool
  paused :: bool
  destroyed :: bool
  heap :: "string list list"
  dataBuffer :: nat
  origRole :: "string option"
  streams :: "copy_stream list"
  closed :: "copy_stream list"
  signals :: "signal list"

text \<open>
  The fields, in order: the \<open>session_replication_role\<close> of the target session; the
  statements issued on the target client; how often a target client was acquired and
  released; the arguments of the calls of \<open>enableTriggers\<close>; the identifiers in the data
  pool (the ledger); the records committed to the target table; the messages sent to the
  parent process; the calls of \<open>generateError\<close> and of \<open>log\<close>; the statements issued on the
  source client; whether the source query can still emit events; whether the source client
  is paused, and destroyed; the array store; \<open>populateTableWorker\<close>'s variables \<open>dataBuffer\<close>
  (an address) and \<open>originalSessionReplicationRole\<close>; the copy streams that are open, oldest
  first, and those that are done; the signals emitted on the event emitter.
\<close>

subsection \<open>Collaborators\<close>

text \<open>
  Modelled from the spec: the Logger of FsOps (\<open>log (context, message, optionalFilePath)\<close>
  and \<open>recordError (context, message, relatedStatement)\<close>, the latter named
  \<open>generateError\<close> in the code) and the Connection Provider of DBAccess
  (\<open>getPgClient\<close>, \<open>releaseDbClient\<close>) are not in the file; they are recorded as calls.
  A log entry is the fixed text of the message, the statement the message quotes, if any,
  and the file path, kept as the two arguments of \<open>path.join\<close>.
\<close>

definition generateError :: "string \<Rightarrow> sql \<Rightarrow> world \<Rightarrow> world" where
  "generateError message q w = w\<lparr>errors := errors w @ [(message, q)]\<rparr>"

definition log :: "string \<Rightarrow> sql option \<Rightarrow> (string \<times> string) option \<Rightarrow> world \<Rightarrow> world" where
  "log message q file w = w\<lparr>logs := logs w @ [(message, q, file)]\<rparr>"

definition getPgClient :: "world \<Rightarrow> world" where
  "getPgClient w = w\<lparr>acquired := Suc (acquired w)\<rparr>"

definition releaseDbClient :: "world \<Rightarrow> world" where
  "releaseDbClient w = w\<lparr>released := Suc (released w)\<rparr>"

text \<open>
  The target database: what a statement that is not rejected does to the session and to the
  data pool. \<open>SHOW\<close> changes nothing; its answer is read from \<open>sessionRole\<close>.
\<close>

fun applySql :: "sql \<Rightarrow> world \<Rightarrow> world" where
  "applySql (SetRole r) w = w\<lparr>sessionRole := r\<rparr>"
| "applySql (DeleteFrom i) w = w\<lparr>ledger := ledger w - {i}\<rparr>"
| "applySql q w = w"

text \<open>
  \<open>await client.query (sql)\<close>: the statement is issued, and either the promise is rejected
  with an error (the first component) or the statement takes effect.
\<close>

definition clientQuery :: "env \<Rightarrow> sql \<Rightarrow> world \<Rightarrow> string option \<times> world" where
  "clientQuery e q w =
     (case queryFails e q (length (queries w)) of
        Some err \<Rightarrow> (Some err, w\<lparr>queries := queries w @ [q]\<rparr>)
      | None \<Rightarrow> (None, applySql q (w\<lparr>queries := queries w @ [q]\<rparr>)))"

subsection \<open>The functions of DataLoader.ts\<close>

text \<open>
  \<open>processSend\<close>: the guard \<open>if (process.send)\<close> holds in a process that receives
  \<open>message\<close> events, which is the only way the loader runs.
\<close>

definition processSend :: "string \<times> int \<Rightarrow> world \<Rightarrow> world" where
  "processSend m w = w\<lparr>sent := sent w @ [m]\<rparr>"

text \<open>JavaScript's test \<open>if (originalSessionReplicationRole)\<close> on a \<open>string | null\<close>.\<close>

fun truthy :: "string option \<Rightarrow> bool" where
  "truthy None = False"
| "truthy (Some s) = (s \<noteq> [])"

definition enableTriggers :: "env \<Rightarrow> string \<Rightarrow> world \<Rightarrow> world" where
  "enableTriggers e originalSessionReplicationRole w =
     (case clientQuery e (SetRole originalSessionReplicationRole)
             (w\<lparr>enableCalls := enableCalls w @ [originalSessionReplicationRole]\<rparr>) of
        (None, w1) \<Rightarrow> w1
      | (Some err, w1) \<Rightarrow>
          generateError (''[DataLoader::enableTriggers] '' @ err)
            (SetRole originalSessionReplicationRole) w1)"

definition disableTriggers :: "env \<Rightarrow> world \<Rightarrow> string \<times> world" where
  "disableTriggers e w =
     (case clientQuery e ShowRole w of
        (Some err, w1) \<Rightarrow>
          (''origin'', generateError (''[DataLoader::disableTriggers] '' @ err) ShowRole w1)
      | (None, w1) \<Rightarrow>
          (case clientQuery e (SetRole ''replica'') w1 of
             (Some err, w2) \<Rightarrow>
               (sessionRole w1,
                generateError (''[DataLoader::disableTriggers] '' @ err) (SetRole ''replica'') w2)
           | (None, w2) \<Rightarrow> (sessionRole w1, w2)))"

definition deleteChunk :: "env \<Rightarrow> int \<Rightarrow> string option \<Rightarrow> world \<Rightarrow> world" where
  "deleteChunk e dataPoolId originalSessionReplicationRole w =
     releaseDbClient
       (case clientQuery e (DeleteFrom dataPoolId) w of
          (Some err, w1) \<Rightarrow>
            generateError (''[DataLoader::deleteChunk] '' @ err) (DeleteFrom dataPoolId) w1
        | (None, w1) \<Rightarrow>
            (if truthy originalSessionReplicationRole
             then enableTriggers e (the originalSessionReplicationRole) w1
             else w1))"

definition processDataError ::
  "env \<Rightarrow> Conversion \<Rightarrow> string \<Rightarrow> sql \<Rightarrow> sql \<Rightarrow> string \<Rightarrow> int \<Rightarrow> string option \<Rightarrow> world \<Rightarrow> world"
where
  "processDataError e conv streamError q sqlCopy tblName dataPoolId originalSessionReplicationRole w =
     processSend (tblName, 0)
       (deleteChunk e dataPoolId originalSessionReplicationRole
          (log ''[populateTableWorker] Error loading table data:'' (Some q)
             (Some (logsDirPath conv, tblName @ ''.log''))
             (generateError (''[populateTableWorker] '' @ streamError) sqlCopy w)))"

text \<open>The constants of \<open>populateTableWorker\<close> that its handlers share.\<close>

definition originalTableName :: "env \<Rightarrow> Chunk \<Rightarrow> string" where
  "originalTableName e chunk = getTableName e (tableName chunk)"

definition sqlRetrieve :: "env \<Rightarrow> Chunk \<Rightarrow> sql" where
  "sqlRetrieve e chunk = SelectFrom (selectFieldList chunk) (originalTableName e chunk)"

definition sqlCopy :: "Conversion \<Rightarrow> Chunk \<Rightarrow> sql" where
  "sqlCopy conv chunk = CopyFrom (schema conv) (tableName chunk) (delimiter conv)"

text \<open>
  The body of \<open>populateTableWorker\<close> up to the registration of the handlers: the target
  client is acquired (the acquisition of the source client is not recorded), the triggers
  are disabled in data-only mode, the source query is issued on a cursor that is neither
  paused nor destroyed, and \<open>dataBuffer\<close> is bound to a new empty array.
\<close>

definition populateTableWorker :: "env \<Rightarrow> Conversion \<Rightarrow> Chunk \<Rightarrow> world \<Rightarrow> world" where
  "populateTableWorker e conv chunk w =
     (case (if shouldMigrateOnlyData conv
            then (case disableTriggers e (getPgClient w) of (r, w1) \<Rightarrow> (Some r, w1))
            else (None, getPgClient w)) of
        (role, w2) \<Rightarrow>
          w2\<lparr>srcQueries := srcQueries w2 @ [sqlRetrieve e chunk],
             srcLive := True, paused := False, destroyed := False,
             heap := heap w2 @ [[]], dataBuffer := length (heap w2),
             origRole := role\<rparr>)"

text \<open>
  \<open>getCopyStream\<close> and the handler of \<open>chunkBuffered\<close>: the COPY statement is issued on
  the target client, and the new stream is fed from the array that \<open>dataBuffer\<close> refers to.
\<close>

definition getCopyStream :: "env \<Rightarrow> Conversion \<Rightarrow> Chunk \<Rightarrow> world \<Rightarrow> copy_stream" where
  "getCopyStream e conv chunk w =
     \<lparr>cs_sqlCopy = sqlCopy conv chunk, cs_sql = sqlRetrieve e chunk,
      cs_tableName = tableName chunk, cs_dataPoolId = chunkId chunk,
      cs_role = origRole w, cs_dataBuffer = dataBuffer w, cs_source = dataBuffer w\<rparr>"

definition onChunkBuffered :: "env \<Rightarrow> Conversion \<Rightarrow> Chunk \<Rightarrow> world \<Rightarrow> world" where
  "onChunkBuffered e conv chunk w =
     w\<lparr>queries := queries w @ [sqlCopy conv chunk],
       streams := streams w @ [getCopyStream e conv chunk w]\<rparr>"

text \<open>The handler of \<open>chunkLoaded\<close>: \<open>mysqlClient.resume ()\<close>.\<close>

definition onChunkLoaded :: "world \<Rightarrow> world" where
  "onChunkLoaded w = w\<lparr>paused := False\<rparr>"

text \<open>
  The handler of \<open>finish\<close> of a copy stream. The assignment \<open>dataBuffer = []\<close> binds
  \<open>getCopyStream\<close>'s parameter to a new empty array; then \<open>chunkLoaded\<close> is emitted and the
  stream is destroyed.
\<close>

definition onCopyFinish :: "copy_stream \<Rightarrow> world \<Rightarrow> world" where
  "onCopyFinish cs w =
     (let w1 = w\<lparr>heap := heap w @ [[]]\<rparr>;
          cs1 = cs\<lparr>cs_dataBuffer := length (heap w)\<rparr>;
          w2 = onChunkLoaded (w1\<lparr>signals := signals w1 @ [chunkLoaded]\<rparr>)
      in w2\<lparr>closed := cs1 # closed w2\<rparr>)"

text \<open>The handler of \<open>error\<close> of a copy stream.\<close>

definition onCopyError :: "env \<Rightarrow> Conversion \<Rightarrow> copy_stream \<Rightarrow> string \<Rightarrow> world \<Rightarrow> world" where
  "onCopyError e conv cs copyStreamError w =
     processDataError e conv copyStreamError (cs_sql cs) (cs_sqlCopy cs) (cs_tableName cs)
       (cs_dataPoolId cs) (cs_role cs) (w\<lparr>closed := cs # closed w\<rparr>)"

text \<open>
  The handlers of the source query. Of the statements in the \<open>try\<close> block of the
  \<open>result\<close> handler, \<open>parse\<close> is the one that throws.
\<close>

definition onQueryError :: "env \<Rightarrow> Conversion \<Rightarrow> Chunk \<Rightarrow> string \<Rightarrow> world \<Rightarrow> world" where
  "onQueryError e conv chunk errorSqlRetrieve w =
     processDataError e conv errorSqlRetrieve (sqlRetrieve e chunk) (sqlCopy conv chunk)
       (tableName chunk) (chunkId chunk) (origRole w) w"

definition onResult :: "env \<Rightarrow> Conversion \<Rightarrow> Chunk \<Rightarrow> row \<Rightarrow> world \<Rightarrow> world" where
  "onResult e conv chunk r w =
     (case parse e r of
        Inr csv \<Rightarrow>
          (let w1 = w\<lparr>heap := (heap w)[dataBuffer w := heap w ! dataBuffer w @ [csv]]\<rparr>
           in if streamsHighWaterMark conv \<le> int (length (heap w1 ! dataBuffer w1))
              then (onChunkBuffered e conv chunk
                      (w1\<lparr>signals := signals w1 @ [chunkBuffered]\<rparr>))\<lparr>paused := True\<rparr>
              else w1)
      | Inl csvParsingError \<Rightarrow>
          processDataError e conv csvParsingError NoSql NoSql (originalTableName e chunk)
            (chunkId chunk) (origRole w) w)"

definition onEnd :: "world \<Rightarrow> world" where
  "onEnd w = w\<lparr>destroyed := True\<rparr>"

text \<open>The handler of \<open>message\<close>: the entry point of one chunk-processing attempt.\<close>

definition onMessage :: "env \<Rightarrow> Conversion \<Rightarrow> Chunk \<Rightarrow> world \<Rightarrow> world" where
  "onMessage e conv chunk w =
     (let w0 = log (''[loadData] Loading the data into '' @ schema conv @ ''.'' @ tableName chunk)
                 None None w
      in if \<not> dataTransferred e (chunkId chunk)
         then populateTableWorker e conv chunk w0
         else deleteChunk e (chunkId chunk) None (getPgClient w0))"

subsection \<open>Delivery of events\<close>

text \<open>
  What the two databases do around a handler. A source query that ends or fails emits
  nothing more. The target runs the statements of one connection in order, so \<open>finish\<close>
  and \<open>error\<close> belong to the oldest open copy stream; on \<open>finish\<close> the records of the
  array the stream was fed from are committed, on \<open>error\<close> none of them is.
\<close>

fun fire :: "env \<Rightarrow> Conversion \<Rightarrow> Chunk \<Rightarrow> event \<Rightarrow> world \<Rightarrow> world" where
  "fire e conv chunk (QueryError err) w = onQueryError e conv chunk err (w\<lparr>srcLive := False\<rparr>)"
| "fire e conv chunk (QueryResult r) w = onResult e conv chunk r w"
| "fire e conv chunk QueryEnd w = onEnd (w\<lparr>srcLive := False\<rparr>)"
| "fire e conv chunk CopyFinish w =
     (case streams w of
        [] \<Rightarrow> w
      | cs # rest \<Rightarrow>
          onCopyFinish cs (w\<lparr>streams := rest, target := target w @ heap w ! cs_source cs\<rparr>))"
| "fire e conv chunk (CopyError err) w =
     (case streams w of
        [] \<Rightarrow> w
      | cs # rest \<Rightarrow> onCopyError e conv cs err (w\<lparr>streams := rest\<rparr>))"

text \<open>
  When an event can occur: rows and the end of the cursor only while the source is live and
  not paused, a retrieval error while it is live, and the outcome of a copy stream only
  while one is open.
\<close>

fun enabled :: "event \<Rightarrow> world \<Rightarrow> bool" where
  "enabled (QueryError err) w = srcLive w"
| "enabled (QueryResult r) w = (srcLive w \<and> \<not> paused w)"
| "enabled QueryEnd w = (srcLive w \<and> \<not> paused w)"
| "enabled CopyFinish w = (streams w \<noteq> [])"
| "enabled (CopyError err) w = (streams w \<noteq> [])"

fun run :: "env \<Rightarrow> Conversion \<Rightarrow> Chunk \<Rightarrow> event list \<Rightarrow> world \<Rightarrow> world" where
  "run e conv chunk [] w = w"
| "run e conv chunk (ev # evs) w = run e conv chunk evs (fire e conv chunk ev w)"

fun admissible :: "env \<Rightarrow> Conversion \<Rightarrow> Chunk \<Rightarrow> event list \<Rightarrow> world \<Rightarrow> bool" where
  "admissible e conv chunk [] w = True"
| "admissible e conv chunk (ev # evs) w =
     (enabled ev w \<and> admissible e conv chunk evs (fire e conv chunk ev w))"

text \<open>One chunk-processing attempt: the message, then the events that follow it.\<close>

definition attempt :: "env \<Rightarrow> Conversion \<Rightarrow> Chunk \<Rightarrow> event list \<Rightarrow> world \<Rightarrow> world" where
  "attempt e conv chunk evs w = run e conv chunk evs (onMessage e conv chunk w)"

text \<open>
  A world before any attempt: a session role, a ledger and the contents of the target
  table; nothing acquired, issued, logged or sent.
\<close>

definition initial :: "string \<Rightarrow> int set \<Rightarrow> string list \<Rightarrow> world" where
  "initial role pool rows =
     \<lparr>sessionRole = role, queries = [], acquired = 0, released = 0, enableCalls = [],
      ledger = pool, target = rows, sent = [], errors = [], logs = [], srcQueries = [],
      srcLive = False, paused = False, destroyed = False, heap = [], dataBuffer = 0,
      origRole = None, streams = [], closed = [], signals = []\<rparr>"

subsection \<open>Observations\<close>

fun isDelete :: "sql \<Rightarrow> bool" where
  "isDelete (DeleteFrom i) = True"
| "isDelete q = False"

fun isCopy :: "sql \<Rightarrow> bool" where
  "isCopy (CopyFrom s t d) = True"
| "isCopy q = False"

text \<open>
  An event of a run without failure: a row that the encoder accepts, the end of the cursor,
  the success of a copy stream.
\<close>

fun noFailure :: "env \<Rightarrow> event \<Rightarrow> bool" where
  "noFailure e (QueryResult r) = (case parse e r of Inr csv \<Rightarrow> True | Inl err \<Rightarrow> False)"
| "noFailure e QueryEnd = True"
| "noFailure e CopyFinish = True"
| "noFailure e (QueryError err) = False"
| "noFailure e (CopyError err) = False"

text \<open>
  At most one copy stream is open, it is the one \<open>getCopyStream\<close> builds, and the source
  cursor is paused while it is open.
\<close>

definition oneStream :: "env \<Rightarrow> Conversion \<Rightarrow> Chunk \<Rightarrow> world \<Rightarrow> bool" where
  "oneStream e conv chunk w =
     (streams w = [] \<or> (paused w \<and> streams w = [getCopyStream e conv chunk w]))"

subsection \<open>Sample inputs\<close>

text \<open>
  An encoder that rejects the row without fields and encodes any other row as its first
  value; a chunk of table \<open>orders\<close> with ledger identifier 7; a target client that rejects
  nothing, and clients that reject one kind of statement.
\<close>

fun sampleParse :: "row \<Rightarrow> string + string" where
  "sampleParse [] = Inl ''no fields''"
| "sampleParse ((c, v) # r) = Inr v"

definition demoEnv :: "(sql \<Rightarrow> nat \<Rightarrow> string option) \<Rightarrow> env" where
  "demoEnv rejects =
     \<lparr>parse = sampleParse, queryFails = rejects, dataTransferred = (\<lambda>i. False),
      getTableName = (\<lambda>t. t)\<rparr>"

definition recoveryEnv :: "(sql \<Rightarrow> nat \<Rightarrow> string option) \<Rightarrow> env" where
  "recoveryEnv rejects =
     \<lparr>parse = sampleParse, queryFails = rejects, dataTransferred = (\<lambda>i. True),
      getTableName = (\<lambda>t. t)\<rparr>"

definition demoConv :: "int \<Rightarrow> bool \<Rightarrow> Conversion" where
  "demoConv wm dataOnly =
     \<lparr>schema = ''public'', delimiter = '','', streamsHighWaterMark = wm,
      logsDirPath = ''logs'', shouldMigrateOnlyData = dataOnly\<rparr>"

definition demoChunk :: Chunk where
  "demoChunk = \<lparr>chunkId = 7, tableName = ''orders'', selectFieldList = ''*'', rowsCnt = 3\<rparr>"

definition rowOf :: "string \<Rightarrow> row" where
  "rowOf v = [(''c'', v)]"

definition noReject :: "sql \<Rightarrow> nat \<Rightarrow> string option" where
  "noReject q n = None"

definition rejectDelete :: "sql \<Rightarrow> nat \<Rightarrow> string option" where
  "rejectDelete q n = (if isDelete q then Some ''connection lost'' else None)"

definition rejectSetReplica :: "sql \<Rightarrow> nat \<Rightarrow> string option" where
  "rejectSetReplica q n = (if q = SetRole ''replica'' then Some ''permission denied'' else None)"

definition rejectShow :: "sql \<Rightarrow> nat \<Rightarrow> string option" where
  "rejectShow q n = (if q = ShowRole then Some ''connection lost'' else None)"

section \<open>Properties\<close>

lemmas prim_defs = clientQuery_def generateError_def log_def getPgClient_def
  releaseDbClient_def processSend_def

lemmas handler_defs = attempt_def onMessage_def populateTableWorker_def disableTriggers_def
  enableTriggers_def deleteChunk_def processDataError_def onResult_def onChunkBuffered_def
  getCopyStream_def onCopyFinish_def onChunkLoaded_def onCopyError_def onQueryError_def
  onEnd_def sqlCopy_def sqlRetrieve_def originalTableName_def

lemmas sample_defs = initial_def demoEnv_def recoveryEnv_def demoConv_def demoChunk_def
  rowOf_def noReject_def rejectDelete_def rejectSetReplica_def rejectShow_def

subsection \<open>What the set-up and the handlers leave alone\<close>

lemma disableTriggers_frame:
  "ledger (snd (disableTriggers e w)) = ledger w \<and>
   sent (snd (disableTriggers e w)) = sent w \<and>
   released (snd (disableTriggers e w)) = released w \<and>
   target (snd (disableTriggers e w)) = target w \<and>
   streams (snd (disableTriggers e w)) = streams w \<and>
   heap (snd (disableTriggers e w)) = heap w \<and>
   filter isDelete (queries (snd (disableTriggers e w))) = filter isDelete (queries w) \<and>
   filter isCopy (queries (snd (disableTriggers e w))) = filter isCopy (queries w)"
  by (simp add: disableTriggers_def prim_defs split: option.splits)

lemma populateTableWorker_frame:
  "ledger (populateTableWorker e conv chunk w) = ledger w \<and>
   sent (populateTableWorker e conv chunk w) = sent w \<and>
   released (populateTableWorker e conv chunk w) = released w \<and>
   target (populateTableWorker e conv chunk w) = target w \<and>
   streams (populateTableWorker e conv chunk w) = streams w \<and>
   filter isDelete (queries (populateTableWorker e conv chunk w)) = filter isDelete (queries w)"
proof (cases "disableTriggers e (getPgClient w)")
  case (Pair r w1)
  with disableTriggers_frame [of e "getPgClient w"] show ?thesis
    by (simp add: populateTableWorker_def getPgClient_def)
qed

lemma fire_noFailure_frame:
  "noFailure e ev \<Longrightarrow>
   ledger (fire e conv chunk ev w) = ledger w \<and>
   sent (fire e conv chunk ev w) = sent w \<and>
   released (fire e conv chunk ev w) = released w \<and>
   filter isDelete (queries (fire e conv chunk ev w)) = filter isDelete (queries w)"
  by (cases ev)
     (simp_all add: onResult_def onChunkBuffered_def onCopyFinish_def onChunkLoaded_def
        onEnd_def sqlCopy_def Let_def split: sum.splits list.splits)

lemma run_noFailure_frame:
  "\<forall>ev \<in> set evs. noFailure e ev \<Longrightarrow>
   ledger (run e conv chunk evs w) = ledger w \<and>
   sent (run e conv chunk evs w) = sent w \<and>
   released (run e conv chunk evs w) = released w \<and>
   filter isDelete (queries (run e conv chunk evs w)) = filter isDelete (queries w)"
proof (induction evs arbitrary: w)
  case Nil
  then show ?case by simp
next
  case (Cons ev evs)
  have "noFailure e ev" using Cons.prems by simp
  from fire_noFailure_frame [OF this, of conv chunk w]
    Cons.IH [of "fire e conv chunk ev w"] Cons.prems
  show ?case by simp
qed

subsection \<open>The success path\<close>

text \<open>
  C4. In a chunk-processing attempt that is not a recovery and in which nothing fails
  (every row is encoded, every copy stream finishes, the cursor may reach its end), no
  DELETE is issued against the ledger, the ledger is what it was, no message is sent to
  the parent process, and the target client is not released either: only an event that is
  a failure, or the recovery path, can delete the entry or report an outcome.
\<close>

theorem success_path_skips_ledger_and_outcome:
  assumes "\<not> dataTransferred e (chunkId chunk)"
    and "\<forall>ev \<in> set evs. noFailure e ev"
  shows "ledger (attempt e conv chunk evs w) = ledger w \<and>
         sent (attempt e conv chunk evs w) = sent w \<and>
         released (attempt e conv chunk evs w) = released w \<and>
         filter isDelete (queries (attempt e conv chunk evs w)) = filter isDelete (queries w)"
  using assms(1)
    run_noFailure_frame [OF assms(2), of conv chunk
      "populateTableWorker e conv chunk (log (''[loadData] Loading the data into '' @ schema conv @ ''.'' @ tableName chunk) None None w)"]
    populateTableWorker_frame [of e conv chunk "log (''[loadData] Loading the data into '' @ schema conv @ ''.'' @ tableName chunk) None None w"]
  by (simp add: attempt_def onMessage_def log_def)

theorem success_path_skips_ledger_and_outcome_witness:
  "\<not> dataTransferred (demoEnv noReject) (chunkId demoChunk) \<and>
   list_all (noFailure (demoEnv noReject))
     [QueryResult (rowOf ''a''), CopyFinish, QueryResult (rowOf ''b''), CopyFinish, QueryEnd] \<and>
   ledger (attempt (demoEnv noReject) (demoConv 1 True) demoChunk
            [QueryResult (rowOf ''a''), CopyFinish, QueryResult (rowOf ''b''), CopyFinish,
             QueryEnd] (initial ''origin'' {7} [])) = {7} \<and>
   sent (attempt (demoEnv noReject) (demoConv 1 True) demoChunk
            [QueryResult (rowOf ''a''), CopyFinish, QueryResult (rowOf ''b''), CopyFinish,
             QueryEnd] (initial ''origin'' {7} [])) = []"
  using success_path_skips_ledger_and_outcome
    [where e = "demoEnv noReject" and chunk = demoChunk and conv = "demoConv 1 True"
       and w = "initial ''origin'' {7} []"
       and evs = "[QueryResult (rowOf ''a''), CopyFinish, QueryResult (rowOf ''b''),
                   CopyFinish, QueryEnd]"]
  by (simp add: demoEnv_def demoChunk_def rowOf_def initial_def)

subsection \<open>The failure clean-up\<close>

lemma deleteChunk_frame:
  "target (deleteChunk e i role w) = target w \<and>
   streams (deleteChunk e i role w) = streams w \<and>
   paused (deleteChunk e i role w) = paused w \<and>
   srcLive (deleteChunk e i role w) = srcLive w \<and>
   destroyed (deleteChunk e i role w) = destroyed w \<and>
   heap (deleteChunk e i role w) = heap w \<and>
   dataBuffer (deleteChunk e i role w) = dataBuffer w \<and>
   origRole (deleteChunk e i role w) = origRole w \<and>
   srcQueries (deleteChunk e i role w) = srcQueries w \<and>
   sent (deleteChunk e i role w) = sent w \<and>
   acquired (deleteChunk e i role w) = acquired w \<and>
   released (deleteChunk e i role w) = Suc (released w)"
  by (simp add: deleteChunk_def enableTriggers_def prim_defs split: option.splits)

lemma deleteChunk_queries:
  "filter isCopy (queries (deleteChunk e i role w)) = filter isCopy (queries w) \<and>
   filter isDelete (queries (deleteChunk e i role w)) = filter isDelete (queries w) @ [DeleteFrom i] \<and>
   ledger (deleteChunk e i role w) \<subseteq> ledger w \<and>
   ledger w - {i} \<subseteq> ledger (deleteChunk e i role w)"
  by (simp add: deleteChunk_def enableTriggers_def prim_defs split: option.splits)

lemma deleteChunk_no_role:
  "queries (deleteChunk e i None w) = queries w @ [DeleteFrom i] \<and>
   enableCalls (deleteChunk e i None w) = enableCalls w \<and>
   sessionRole (deleteChunk e i None w) = sessionRole w \<and>
   ledger (deleteChunk e i None w) =
     (if queryFails e (DeleteFrom i) (length (queries w)) = None then ledger w - {i} else ledger w)"
  by (simp add: deleteChunk_def prim_defs split: option.splits)

lemma processDataError_frame:
  "target (processDataError e conv err q qc t i role w) = target w \<and>
   streams (processDataError e conv err q qc t i role w) = streams w \<and>
   paused (processDataError e conv err q qc t i role w) = paused w \<and>
   srcLive (processDataError e conv err q qc t i role w) = srcLive w \<and>
   destroyed (processDataError e conv err q qc t i role w) = destroyed w \<and>
   heap (processDataError e conv err q qc t i role w) = heap w \<and>
   dataBuffer (processDataError e conv err q qc t i role w) = dataBuffer w \<and>
   origRole (processDataError e conv err q qc t i role w) = origRole w \<and>
   srcQueries (processDataError e conv err q qc t i role w) = srcQueries w \<and>
   sent (processDataError e conv err q qc t i role w) = sent w @ [(t, 0)] \<and>
   released (processDataError e conv err q qc t i role w) = Suc (released w)"
  using deleteChunk_frame [of e i role
    "log ''[populateTableWorker] Error loading table data:'' (Some q)
       (Some (logsDirPath conv, t @ ''.log''))
       (generateError (''[populateTableWorker] '' @ err) qc w)"]
  by (simp add: processDataError_def processSend_def log_def generateError_def)

lemma processDataError_queries:
  "filter isCopy (queries (processDataError e conv err q qc t i role w)) = filter isCopy (queries w) \<and>
   filter isDelete (queries (processDataError e conv err q qc t i role w)) =
     filter isDelete (queries w) @ [DeleteFrom i] \<and>
   ledger (processDataError e conv err q qc t i role w) \<subseteq> ledger w \<and>
   ledger w - {i} \<subseteq> ledger (processDataError e conv err q qc t i role w)"
  using deleteChunk_queries [of e i role
    "log ''[populateTableWorker] Error loading table data:'' (Some q)
       (Some (logsDirPath conv, t @ ''.log''))
       (generateError (''[populateTableWorker] '' @ err) qc w)"]
  by (simp add: processDataError_def processSend_def log_def generateError_def)

subsection \<open>The recovery path\<close>

lemma onMessage_recovery:
  "dataTransferred e (chunkId chunk) \<Longrightarrow>
   onMessage e conv chunk w =
     deleteChunk e (chunkId chunk) None (getPgClient (log (''[loadData] Loading the data into '' @ schema conv @ ''.'' @ tableName chunk) None None w))"
  by (simp add: onMessage_def)

lemma recovery_once:
  assumes "dataTransferred e (chunkId chunk)"
  shows "srcQueries (onMessage e conv chunk w) = srcQueries w \<and>
         target (onMessage e conv chunk w) = target w \<and>
         streams (onMessage e conv chunk w) = streams w \<and>
         sent (onMessage e conv chunk w) = sent w \<and>
         queries (onMessage e conv chunk w) = queries w @ [DeleteFrom (chunkId chunk)] \<and>
         enableCalls (onMessage e conv chunk w) = enableCalls w \<and>
         acquired (onMessage e conv chunk w) = Suc (acquired w) \<and>
         released (onMessage e conv chunk w) = Suc (released w) \<and>
         ledger (onMessage e conv chunk w) =
           (if queryFails e (DeleteFrom (chunkId chunk)) (length (queries w)) = None
            then ledger w - {chunkId chunk} else ledger w)"
  using deleteChunk_frame [of e "chunkId chunk" None "getPgClient (log (''[loadData] Loading the data into '' @ schema conv @ ''.'' @ tableName chunk) None None w)"]
    deleteChunk_no_role [of e "chunkId chunk" "getPgClient (log (''[loadData] Loading the data into '' @ schema conv @ ''.'' @ tableName chunk) None None w)"]
  by (simp add: onMessage_recovery [OF assms] getPgClient_def log_def)

lemma recovery_repeated:
  assumes "dataTransferred e (chunkId chunk)"
  shows "srcQueries ((onMessage e conv chunk ^^ n) w) = srcQueries w \<and>
         target ((onMessage e conv chunk ^^ n) w) = target w \<and>
         filter isCopy (queries ((onMessage e conv chunk ^^ n) w)) = filter isCopy (queries w) \<and>
         ledger ((onMessage e conv chunk ^^ n) w) \<subseteq> ledger w \<and>
         ledger w - {chunkId chunk} \<subseteq> ledger ((onMessage e conv chunk ^^ n) w)"
proof (induction n)
  case 0
  show ?case by simp
next
  case (Suc n)
  from recovery_once [OF assms, where conv = conv and w = "(onMessage e conv chunk ^^ n) w"] Suc
  show ?case by (auto split: if_splits)
qed

text \<open>
  C8. When the consistency check answers true for the chunk, the attempt issues no source
  query, opens no copy stream and writes nothing to the target table; on the target client
  it issues exactly one statement, the DELETE of the chunk's ledger entry, and it releases
  the client once. The entry is gone from the ledger when the DELETE is not rejected, and
  the ledger is unchanged otherwise. Repeating the recovery any number of times leaves the
  target table as it was, issues no COPY, and removes nothing from the ledger but the
  chunk's entry.
\<close>

theorem recovery_only_deletes_ledger_entry:
  assumes "dataTransferred e (chunkId chunk)"
  shows "srcQueries (onMessage e conv chunk w) = srcQueries w \<and>
         target (onMessage e conv chunk w) = target w \<and>
         streams (onMessage e conv chunk w) = streams w \<and>
         sent (onMessage e conv chunk w) = sent w \<and>
         queries (onMessage e conv chunk w) = queries w @ [DeleteFrom (chunkId chunk)] \<and>
         enableCalls (onMessage e conv chunk w) = enableCalls w \<and>
         acquired (onMessage e conv chunk w) = Suc (acquired w) \<and>
         released (onMessage e conv chunk w) = Suc (released w) \<and>
         ledger (onMessage e conv chunk w) =
           (if queryFails e (DeleteFrom (chunkId chunk)) (length (queries w)) = None
            then ledger w - {chunkId chunk} else ledger w) \<and>
         srcQueries ((onMessage e conv chunk ^^ n) w) = srcQueries w \<and>
         target ((onMessage e conv chunk ^^ n) w) = target w \<and>
         filter isCopy (queries ((onMessage e conv chunk ^^ n) w)) = filter isCopy (queries w) \<and>
         ledger ((onMessage e conv chunk ^^ n) w) \<subseteq> ledger w \<and>
         ledger w - {chunkId chunk} \<subseteq> ledger ((onMessage e conv chunk ^^ n) w)"
  using recovery_once [OF assms, where conv = conv and w = w] recovery_repeated [OF assms, where conv = conv and n = n and w = w]
  by simp

theorem recovery_only_deletes_ledger_entry_witness:
  "dataTransferred (recoveryEnv noReject) (chunkId demoChunk) \<and>
   queries (onMessage (recoveryEnv noReject) (demoConv 2 True) demoChunk
              (initial ''origin'' {7, 9} [''a''])) = [DeleteFrom 7] \<and>
   released (onMessage (recoveryEnv noReject) (demoConv 2 True) demoChunk
              (initial ''origin'' {7, 9} [''a''])) = 1 \<and>
   ledger (onMessage (recoveryEnv noReject) (demoConv 2 True) demoChunk
              (initial ''origin'' {7, 9} [''a''])) = {9} \<and>
   target ((onMessage (recoveryEnv noReject) (demoConv 2 True) demoChunk ^^ 2)
              (initial ''origin'' {7, 9} [''a''])) = [''a'']"
  using recovery_only_deletes_ledger_entry
    [where e = "recoveryEnv noReject" and chunk = demoChunk and conv = "demoConv 2 True"
       and w = "initial ''origin'' {7, 9} [''a'']" and n = 2]
  by (simp add: recoveryEnv_def demoChunk_def initial_def noReject_def)

subsection \<open>The integrity controller\<close>

text \<open>
  C9, as stated, fails: \<open>disableTriggers\<close> assigns the answer of SHOW before it issues SET,
  so when SHOW succeeds on a session in mode \<open>local\<close> and SET is rejected, the function
  returns \<open>local\<close>, not the default \<open>origin\<close>.
\<close>

theorem disableTriggers_returns_captured_role_counterexample:
  "queryFails (demoEnv rejectSetReplica) ShowRole 0 = None \<and>
   queryFails (demoEnv rejectSetReplica) (SetRole ''replica'') 1 = Some ''permission denied'' \<and>
   fst (disableTriggers (demoEnv rejectSetReplica) (initial ''local'' {7} [])) = ''local'' \<and>
   fst (disableTriggers (demoEnv rejectSetReplica) (initial ''local'' {7} [])) \<noteq> ''origin''"
  by (simp add: disableTriggers_def prim_defs sample_defs)

text \<open>
  C9, amended. When SHOW is rejected, \<open>disableTriggers\<close> records the error with the SHOW
  statement and returns the default \<open>origin\<close>; when SHOW succeeds and SET is rejected, it
  records the error with the SET statement and returns the mode that SHOW read. In both
  cases the session mode is unchanged. When the SET of \<open>enableTriggers\<close> is rejected, the
  error is recorded with that statement, the session mode is unchanged and nothing else
  happens. Whatever the target client rejects, \<open>populateTableWorker\<close> goes on to issue the
  source query on a cursor that is live and not paused.
\<close>

theorem trigger_control_fails_open:
  "(queryFails e ShowRole (length (queries w)) = Some err \<longrightarrow>
      fst (disableTriggers e w) = ''origin'' \<and>
      errors (snd (disableTriggers e w)) =
        errors w @ [(''[DataLoader::disableTriggers] '' @ err, ShowRole)] \<and>
      queries (snd (disableTriggers e w)) = queries w @ [ShowRole] \<and>
      sessionRole (snd (disableTriggers e w)) = sessionRole w) \<and>
   (queryFails e ShowRole (length (queries w)) = None \<and>
    queryFails e (SetRole ''replica'') (Suc (length (queries w))) = Some err \<longrightarrow>
      fst (disableTriggers e w) = sessionRole w \<and>
      errors (snd (disableTriggers e w)) =
        errors w @ [(''[DataLoader::disableTriggers] '' @ err, SetRole ''replica'')] \<and>
      queries (snd (disableTriggers e w)) = queries w @ [ShowRole, SetRole ''replica''] \<and>
      sessionRole (snd (disableTriggers e w)) = sessionRole w) \<and>
   (queryFails e (SetRole r) (length (queries w)) = Some err \<longrightarrow>
      errors (enableTriggers e r w) =
        errors w @ [(''[DataLoader::enableTriggers] '' @ err, SetRole r)] \<and>
      queries (enableTriggers e r w) = queries w @ [SetRole r] \<and>
      sessionRole (enableTriggers e r w) = sessionRole w \<and>
      released (enableTriggers e r w) = released w) \<and>
   srcQueries (populateTableWorker e conv chunk w) = srcQueries w @ [sqlRetrieve e chunk] \<and>
   srcLive (populateTableWorker e conv chunk w) \<and>
   \<not> paused (populateTableWorker e conv chunk w)"
proof -
  have a: "queryFails e ShowRole (length (queries w)) = Some err \<longrightarrow>
      fst (disableTriggers e w) = ''origin'' \<and>
      errors (snd (disableTriggers e w)) =
        errors w @ [(''[DataLoader::disableTriggers] '' @ err, ShowRole)] \<and>
      queries (snd (disableTriggers e w)) = queries w @ [ShowRole] \<and>
      sessionRole (snd (disableTriggers e w)) = sessionRole w"
    by (simp add: disableTriggers_def prim_defs)
  have b: "queryFails e ShowRole (length (queries w)) = None \<and>
    queryFails e (SetRole ''replica'') (Suc (length (queries w))) = Some err \<longrightarrow>
      fst (disableTriggers e w) = sessionRole w \<and>
      errors (snd (disableTriggers e w)) =
        errors w @ [(''[DataLoader::disableTriggers] '' @ err, SetRole ''replica'')] \<and>
      queries (snd (disableTriggers e w)) = queries w @ [ShowRole, SetRole ''replica''] \<and>
      sessionRole (snd (disableTriggers e w)) = sessionRole w"
    by (simp add: disableTriggers_def prim_defs)
  have c: "queryFails e (SetRole r) (length (queries w)) = Some err \<longrightarrow>
      errors (enableTriggers e r w) =
        errors w @ [(''[DataLoader::enableTriggers] '' @ err, SetRole r)] \<and>
      queries (enableTriggers e r w) = queries w @ [SetRole r] \<and>
      sessionRole (enableTriggers e r w) = sessionRole w \<and>
      released (enableTriggers e r w) = released w"
    by (simp add: enableTriggers_def prim_defs)
  have d: "srcQueries (populateTableWorker e conv chunk w) = srcQueries w @ [sqlRetrieve e chunk] \<and>
   srcLive (populateTableWorker e conv chunk w) \<and>
   \<not> paused (populateTableWorker e conv chunk w)"
  proof (cases "disableTriggers e (getPgClient w)")
    case (Pair r0 w1)
    have "srcQueries (snd (disableTriggers e (getPgClient w))) = srcQueries w"
      by (simp add: disableTriggers_def prim_defs split: option.splits)
    with Pair show ?thesis
      by (simp add: populateTableWorker_def getPgClient_def)
  qed
  from a b c d show ?thesis by blast
qed

theorem trigger_control_fails_open_witness:
  "queryFails (demoEnv rejectShow) ShowRole (length (queries (initial ''local'' {7} []))) =
     Some ''connection lost'' \<and>
   fst (disableTriggers (demoEnv rejectShow) (initial ''local'' {7} [])) = ''origin'' \<and>
   queryFails (demoEnv rejectSetReplica) ShowRole (length (queries (initial ''local'' {7} []))) =
     None \<and>
   queryFails (demoEnv rejectSetReplica) (SetRole ''replica'')
     (Suc (length (queries (initial ''local'' {7} [])))) = Some ''permission denied'' \<and>
   fst (disableTriggers (demoEnv rejectSetReplica) (initial ''local'' {7} [])) = ''local'' \<and>
   queryFails (demoEnv rejectSetReplica) (SetRole ''replica'')
     (length (queries (initial ''local'' {7} []))) = Some ''permission denied'' \<and>
   errors (enableTriggers (demoEnv rejectSetReplica) ''replica'' (initial ''local'' {7} [])) =
     [(''[DataLoader::enableTriggers] permission denied'', SetRole ''replica'')]"
  using trigger_control_fails_open
      [where e = "demoEnv rejectShow" and w = "initial ''local'' {7} []"
         and err = "''connection lost''"]
    trigger_control_fails_open
      [where e = "demoEnv rejectSetReplica" and w = "initial ''local'' {7} []"
         and err = "''permission denied''" and r = "''replica''"]
  by (simp add: sample_defs)

subsection \<open>Rows that the encoder rejects\<close>

lemma onResult_rejected:
  assumes "parse e r = Inl err"
  shows "onResult e conv chunk r w =
     processDataError e conv err NoSql NoSql (originalTableName e chunk) (chunkId chunk)
       (origRole w) w"
  using assms by (simp add: onResult_def)

lemma onResult_accepted_buffer:
  assumes "parse e r = Inr csv" and "dataBuffer w < length (heap w)"
  shows "dataBuffer (onResult e conv chunk r w) = dataBuffer w \<and>
         heap (onResult e conv chunk r w) ! dataBuffer w = heap w ! dataBuffer w @ [csv]"
  using assms by (simp add: onResult_def onChunkBuffered_def Let_def)

lemma run_rejected_rows:
  assumes "\<forall>r \<in> set rs. isl (parse e r)"
  shows "srcLive (run e conv chunk (map QueryResult rs) w) = srcLive w \<and>
         paused (run e conv chunk (map QueryResult rs) w) = paused w \<and>
         destroyed (run e conv chunk (map QueryResult rs) w) = destroyed w \<and>
         heap (run e conv chunk (map QueryResult rs) w) = heap w \<and>
         dataBuffer (run e conv chunk (map QueryResult rs) w) = dataBuffer w \<and>
         released (run e conv chunk (map QueryResult rs) w) = released w + length rs \<and>
         sent (run e conv chunk (map QueryResult rs) w) =
           sent w @ replicate (length rs) (originalTableName e chunk, 0) \<and>
         filter isDelete (queries (run e conv chunk (map QueryResult rs) w)) =
           filter isDelete (queries w) @ replicate (length rs) (DeleteFrom (chunkId chunk))"
  using assms
proof (induction rs arbitrary: w)
  case Nil
  show ?case by simp
next
  case (Cons r rs)
  from Cons.prems obtain err where err: "parse e r = Inl err"
    by (cases "parse e r") auto
  let ?w1 = "processDataError e conv err NoSql NoSql (originalTableName e chunk) (chunkId chunk)
       (origRole w) w"
  have step: "onResult e conv chunk r w = ?w1"
    by (rule onResult_rejected [OF err])
  have rest: "\<forall>r \<in> set rs. isl (parse e r)" using Cons.prems by simp
  from Cons.IH [OF rest, of ?w1]
    processDataError_frame [of e conv err NoSql NoSql "originalTableName e chunk" "chunkId chunk" "origRole w" w]
    processDataError_queries [of e conv err NoSql NoSql "originalTableName e chunk" "chunkId chunk" "origRole w" w]
  show ?case
    by (simp add: step)
qed

lemma admissible_rejected_rows:
  assumes "\<forall>r \<in> set rs. isl (parse e r)" and "srcLive w" and "\<not> paused w"
  shows "admissible e conv chunk (map QueryResult rs @ [QueryResult r']) w"
  using assms
proof (induction rs arbitrary: w)
  case Nil
  then show ?case by simp
next
  case (Cons r rs)
  from Cons.prems obtain err where err: "parse e r = Inl err"
    by (cases "parse e r") auto
  let ?w1 = "processDataError e conv err NoSql NoSql (originalTableName e chunk) (chunkId chunk)
       (origRole w) w"
  have step: "onResult e conv chunk r w = ?w1"
    by (rule onResult_rejected [OF err])
  have rest: "\<forall>r \<in> set rs. isl (parse e r)" using Cons.prems by simp
  have "srcLive ?w1" "\<not> paused ?w1"
    using processDataError_frame [of e conv err NoSql NoSql "originalTableName e chunk" "chunkId chunk" "origRole w" w]
      Cons.prems by simp_all
  from Cons.IH [OF rest this] Cons.prems show ?case
    by (simp add: step)
qed

text \<open>
  C10. An encoding failure neither pauses nor stops the source cursor. From a state with a
  live, unpaused cursor, any number of rows that the encoder rejects can be delivered one
  after the other, and a row can be delivered after them: the cursor is still live and
  unpaused, each rejected row has run the failure clean-up once more (one more DELETE of the
  chunk's ledger entry, one more release of the target client, one more zero-row message),
  and a row that is then accepted is appended to the buffer.
\<close>

theorem encoding_failure_keeps_cursor_running:
  assumes "\<forall>r \<in> set rs. isl (parse e r)"
    and "srcLive w" and "\<not> paused w"
    and "parse e r' = Inr csv" and "dataBuffer w < length (heap w)"
  shows "admissible e conv chunk (map QueryResult rs @ [QueryResult r']) w \<and>
         srcLive (run e conv chunk (map QueryResult rs) w) \<and>
         \<not> paused (run e conv chunk (map QueryResult rs) w) \<and>
         destroyed (run e conv chunk (map QueryResult rs) w) = destroyed w \<and>
         released (run e conv chunk (map QueryResult rs) w) = released w + length rs \<and>
         sent (run e conv chunk (map QueryResult rs) w) =
           sent w @ replicate (length rs) (originalTableName e chunk, 0) \<and>
         filter isDelete (queries (run e conv chunk (map QueryResult rs) w)) =
           filter isDelete (queries w) @ replicate (length rs) (DeleteFrom (chunkId chunk)) \<and>
         heap (run e conv chunk (map QueryResult rs @ [QueryResult r']) w) ! dataBuffer w =
           heap w ! dataBuffer w @ [csv]"
proof -
  let ?w1 = "run e conv chunk (map QueryResult rs) w"
  note r = run_rejected_rows [OF assms(1), of conv chunk w]
  have app: "run e conv chunk (map QueryResult rs @ [QueryResult r']) w =
      onResult e conv chunk r' ?w1"
    by (induction rs arbitrary: w) simp_all
  have "dataBuffer ?w1 < length (heap ?w1)" using r assms(5) by simp
  from onResult_accepted_buffer [OF assms(4) this, of conv chunk] r
  have "heap (onResult e conv chunk r' ?w1) ! dataBuffer w = heap w ! dataBuffer w @ [csv]"
    by simp
  with r admissible_rejected_rows [OF assms(1,2,3), of conv chunk r'] assms(2,3) app
  show ?thesis by simp
qed

theorem encoding_failure_keeps_cursor_running_witness:
  "list_all (\<lambda>r. isl (parse (demoEnv noReject) r)) [[], []] \<and>
   srcLive (onMessage (demoEnv noReject) (demoConv 5 True) demoChunk (initial ''origin'' {7} [])) \<and>
   \<not> paused (onMessage (demoEnv noReject) (demoConv 5 True) demoChunk (initial ''origin'' {7} [])) \<and>
   parse (demoEnv noReject) (rowOf ''a'') = Inr ''a'' \<and>
   dataBuffer (onMessage (demoEnv noReject) (demoConv 5 True) demoChunk (initial ''origin'' {7} []))
     < length (heap (onMessage (demoEnv noReject) (demoConv 5 True) demoChunk
                       (initial ''origin'' {7} []))) \<and>
   admissible (demoEnv noReject) (demoConv 5 True) demoChunk
     (map QueryResult [[], []] @ [QueryResult (rowOf ''a'')])
     (onMessage (demoEnv noReject) (demoConv 5 True) demoChunk (initial ''origin'' {7} [])) \<and>
   released (run (demoEnv noReject) (demoConv 5 True) demoChunk (map QueryResult [[], []])
     (onMessage (demoEnv noReject) (demoConv 5 True) demoChunk (initial ''origin'' {7} []))) = 2 \<and>
   sent (run (demoEnv noReject) (demoConv 5 True) demoChunk (map QueryResult [[], []])
     (onMessage (demoEnv noReject) (demoConv 5 True) demoChunk (initial ''origin'' {7} []))) =
     [(''orders'', 0), (''orders'', 0)]"
  using encoding_failure_keeps_cursor_running
    [where e = "demoEnv noReject" and conv = "demoConv 5 True" and chunk = demoChunk
       and rs = "[[], []]" and r' = "rowOf ''a''" and csv = "''a''"
       and w = "onMessage (demoEnv noReject) (demoConv 5 True) demoChunk
                  (initial ''origin'' {7} [])"]
  by (simp add: handler_defs prim_defs sample_defs)

subsection \<open>Batches are loaded one at a time\<close>

lemma getCopyStream_cong:
  "origRole w' = origRole w \<Longrightarrow> dataBuffer w' = dataBuffer w \<Longrightarrow>
   getCopyStream e conv chunk w' = getCopyStream e conv chunk w"
  by (simp add: getCopyStream_def)

lemma oneStream_processDataError:
  assumes "oneStream e conv chunk w"
  shows "oneStream e conv chunk (processDataError e conv err q qc t i role w)"
  using assms processDataError_frame [of e conv err q qc t i role w]
    getCopyStream_cong [of "processDataError e conv err q qc t i role w" w e conv chunk]
  by (simp add: oneStream_def)

lemma oneStream_populateTableWorker:
  assumes "streams w = []"
  shows "oneStream e conv chunk (populateTableWorker e conv chunk w)"
  using assms populateTableWorker_frame [of e conv chunk w]
  by (simp add: oneStream_def)

lemma oneStream_fire:
  assumes "oneStream e conv chunk w" and "enabled ev w"
  shows "oneStream e conv chunk (fire e conv chunk ev w)"
proof (cases ev)
  case (QueryError err)
  have "oneStream e conv chunk (w\<lparr>srcLive := False\<rparr>)"
    using assms(1) by (simp add: oneStream_def getCopyStream_def)
  from oneStream_processDataError [OF this] show ?thesis
    by (simp add: QueryError onQueryError_def)
next
  case (QueryResult r)
  with assms have s: "streams w = []" by (auto simp: oneStream_def)
  show ?thesis
  proof (cases "parse e r")
    case (Inl err)
    from oneStream_processDataError [OF assms(1)] show ?thesis
      by (simp add: QueryResult onResult_rejected [OF Inl])
  next
    case (Inr csv)
    with s show ?thesis
      by (simp add: QueryResult onResult_def onChunkBuffered_def oneStream_def
            getCopyStream_def Let_def)
  qed
next
  case QueryEnd
  with assms show ?thesis by (auto simp: oneStream_def onEnd_def)
next
  case CopyFinish
  with assms show ?thesis
    by (auto simp: oneStream_def onCopyFinish_def onChunkLoaded_def Let_def)
next
  case (CopyError err)
  with assms(2) obtain cs rest where s: "streams w = cs # rest"
    by (cases "streams w") auto
  have "oneStream e conv chunk (w\<lparr>streams := rest, closed := cs # closed w\<rparr>)"
    using assms(1) s by (simp add: oneStream_def)
  from oneStream_processDataError [OF this] show ?thesis
    by (simp add: CopyError s onCopyError_def)
qed

lemma oneStream_run:
  assumes "oneStream e conv chunk w" and "admissible e conv chunk evs w"
  shows "oneStream e conv chunk (run e conv chunk evs w)"
  using assms
proof (induction evs arbitrary: w)
  case Nil
  then show ?case by simp
next
  case (Cons ev evs)
  from Cons.prems have "enabled ev w" and "admissible e conv chunk evs (fire e conv chunk ev w)"
    by simp_all
  from Cons.IH [OF oneStream_fire [OF Cons.prems(1) this(1)] this(2)] show ?case by simp
qed

lemma run_append:
  "run e conv chunk (xs @ ys) w = run e conv chunk ys (run e conv chunk xs w)"
  by (induction xs arbitrary: w) simp_all

lemma admissible_append:
  "admissible e conv chunk (xs @ ys) w =
     (admissible e conv chunk xs w \<and> admissible e conv chunk ys (run e conv chunk xs w))"
  by (induction xs arbitrary: w) auto

text \<open>Once the cursor is paused and no copy stream is open, nothing is loaded any more.\<close>

lemma stalled_run:
  assumes "paused w" and "streams w = []" and "admissible e conv chunk evs w"
  shows "target (run e conv chunk evs w) = target w \<and>
         filter isCopy (queries (run e conv chunk evs w)) = filter isCopy (queries w)"
  using assms
proof (induction evs arbitrary: w)
  case Nil
  show ?case by simp
next
  case (Cons ev evs)
  from Cons.prems obtain err where ev: "ev = QueryError err"
    by (cases ev) auto
  let ?w1 = "fire e conv chunk ev w"
  have w1: "?w1 = processDataError e conv err (sqlRetrieve e chunk) (sqlCopy conv chunk)
       (tableName chunk) (chunkId chunk) (origRole w) (w\<lparr>srcLive := False\<rparr>)"
    by (simp add: ev onQueryError_def)
  note f = processDataError_frame [of e conv err "sqlRetrieve e chunk" "sqlCopy conv chunk"
      "tableName chunk" "chunkId chunk" "origRole w" "w\<lparr>srcLive := False\<rparr>"]
    processDataError_queries [of e conv err "sqlRetrieve e chunk" "sqlCopy conv chunk"
      "tableName chunk" "chunkId chunk" "origRole w" "w\<lparr>srcLive := False\<rparr>"]
  have p: "paused ?w1" and s: "streams ?w1 = []"
    using f Cons.prems(1,2) unfolding w1 by simp_all
  have a: "admissible e conv chunk evs ?w1" using Cons.prems(3) by simp
  have "target ?w1 = target w \<and> filter isCopy (queries ?w1) = filter isCopy (queries w)"
    using f unfolding w1 by simp
  with Cons.IH [OF p s a] show ?case by simp
qed

lemma origRole_fire: "origRole (fire e conv chunk ev w) = origRole w"
proof (cases ev)
  case (QueryError err)
  then show ?thesis
    using processDataError_frame [of e conv err "sqlRetrieve e chunk" "sqlCopy conv chunk"
      "tableName chunk" "chunkId chunk" "origRole w" "w\<lparr>srcLive := False\<rparr>"]
    by (simp add: onQueryError_def)
next
  case (QueryResult r)
  show ?thesis
  proof (cases "parse e r")
    case (Inl err)
    then show ?thesis
      using processDataError_frame [of e conv err NoSql NoSql "originalTableName e chunk"
        "chunkId chunk" "origRole w" w]
      by (simp add: QueryResult onResult_rejected [OF Inl])
  next
    case (Inr csv)
    then show ?thesis
      by (simp add: QueryResult onResult_def onChunkBuffered_def Let_def)
  qed
next
  case QueryEnd
  then show ?thesis by (simp add: onEnd_def)
next
  case CopyFinish
  then show ?thesis
    by (simp add: onCopyFinish_def onChunkLoaded_def Let_def split: list.splits)
next
  case (CopyError err)
  show ?thesis
  proof (cases "streams w")
    case Nil
    then show ?thesis by (simp add: CopyError)
  next
    case (Cons cs rest)
    then show ?thesis
      using processDataError_frame [of e conv err "cs_sql cs" "cs_sqlCopy cs" "cs_tableName cs"
        "cs_dataPoolId cs" "cs_role cs" "w\<lparr>streams := rest, closed := cs # closed w\<rparr>"]
      by (simp add: CopyError onCopyError_def)
  qed
qed

lemma origRole_run: "origRole (run e conv chunk evs w) = origRole w"
  by (induction evs arbitrary: w) (simp_all add: origRole_fire)

subsection \<open>A copy stream that fails\<close>

lemma deleteChunk_restore:
  assumes "queryFails e (DeleteFrom i) (length (queries w)) = None"
  shows "i \<notin> ledger (deleteChunk e i role w) \<and>
         (truthy role \<longrightarrow>
            enableCalls (deleteChunk e i role w) = enableCalls w @ [the role])"
  using assms
  by (simp add: deleteChunk_def enableTriggers_def prim_defs split: option.splits)

lemma deleteChunk_rejected:
  assumes "queryFails e (DeleteFrom i) (length (queries w)) = Some derr"
  shows "enableCalls (deleteChunk e i role w) = enableCalls w \<and>
         sessionRole (deleteChunk e i role w) = sessionRole w \<and>
         ledger (deleteChunk e i role w) = ledger w \<and>
         queries (deleteChunk e i role w) = queries w @ [DeleteFrom i] \<and>
         errors (deleteChunk e i role w) =
           errors w @ [(''[DataLoader::deleteChunk] '' @ derr, DeleteFrom i)]"
  using assms
  by (simp add: deleteChunk_def prim_defs)

lemma processDataError_rejected:
  assumes "queryFails e (DeleteFrom i) (length (queries w)) = Some derr"
  shows "enableCalls (processDataError e conv err q qc t i role w) = enableCalls w \<and>
         sessionRole (processDataError e conv err q qc t i role w) = sessionRole w \<and>
         ledger (processDataError e conv err q qc t i role w) = ledger w \<and>
         queries (processDataError e conv err q qc t i role w) = queries w @ [DeleteFrom i]"
proof -
  let ?w = "log ''[populateTableWorker] Error loading table data:'' (Some q)
       (Some (logsDirPath conv, t @ ''.log''))
       (generateError (''[populateTableWorker] '' @ err) qc w)"
  have "queryFails e (DeleteFrom i) (length (queries ?w)) = Some derr"
    using assms by (simp add: log_def generateError_def)
  from deleteChunk_rejected [OF this, of role] show ?thesis
    by (simp add: processDataError_def processSend_def log_def generateError_def)
qed

lemma processDataError_restore:
  assumes "queryFails e (DeleteFrom i) (length (queries w)) = None"
  shows "i \<notin> ledger (processDataError e conv err q qc t i role w) \<and>
         (truthy role \<longrightarrow>
            enableCalls (processDataError e conv err q qc t i role w) =
              enableCalls w @ [the role])"
proof -
  let ?w = "log ''[populateTableWorker] Error loading table data:'' (Some q)
       (Some (logsDirPath conv, t @ ''.log''))
       (generateError (''[populateTableWorker] '' @ err) qc w)"
  have "queryFails e (DeleteFrom i) (length (queries ?w)) = None"
    using assms by (simp add: log_def generateError_def)
  from deleteChunk_restore [OF this, of role] show ?thesis
    by (simp add: processDataError_def processSend_def log_def generateError_def)
qed

text \<open>
  What a failing copy stream does, in any attempt that is not a recovery. Nothing is loaded
  any more: whatever events follow, no further COPY is issued and the target table keeps
  exactly the records committed before the failure, those of the earlier batches. The
  failure runs the clean-up once: the DELETE of the chunk's ledger entry is issued, the
  target client is released once, and the outcome sent is zero rows for the chunk's table.
  When the DELETE is not rejected, the entry is gone from the ledger and, if a non-empty
  mode was captured, \<open>enableTriggers\<close> is called with it. When the DELETE is rejected,
  \<open>enableTriggers\<close> is not called: the session mode and the ledger are what they were
  before the failure, and the client is released all the same.
\<close>

lemma copy_failure_stops_loading:
  assumes "\<not> dataTransferred e (chunkId chunk)" and "streams start = []"
    and "admissible e conv chunk (pre @ CopyError err # post) (onMessage e conv chunk start)"
  shows "target (attempt e conv chunk (pre @ CopyError err # post) start) =
           target (attempt e conv chunk pre start) \<and>
         filter isCopy (queries (attempt e conv chunk (pre @ CopyError err # post) start)) =
           filter isCopy (queries (attempt e conv chunk pre start)) \<and>
         sent (attempt e conv chunk (pre @ [CopyError err]) start) =
           sent (attempt e conv chunk pre start) @ [(tableName chunk, 0)] \<and>
         released (attempt e conv chunk (pre @ [CopyError err]) start) =
           Suc (released (attempt e conv chunk pre start)) \<and>
         filter isDelete (queries (attempt e conv chunk (pre @ [CopyError err]) start)) =
           filter isDelete (queries (attempt e conv chunk pre start)) @ [DeleteFrom (chunkId chunk)] \<and>
         (queryFails e (DeleteFrom (chunkId chunk))
            (length (queries (attempt e conv chunk pre start))) = None \<longrightarrow>
            chunkId chunk \<notin> ledger (attempt e conv chunk (pre @ [CopyError err]) start) \<and>
            (truthy (origRole (onMessage e conv chunk start)) \<longrightarrow>
               enableCalls (attempt e conv chunk (pre @ [CopyError err]) start) =
                 enableCalls (attempt e conv chunk pre start) @
                   [the (origRole (onMessage e conv chunk start))])) \<and>
         (queryFails e (DeleteFrom (chunkId chunk))
            (length (queries (attempt e conv chunk pre start))) = Some derr \<longrightarrow>
            enableCalls (attempt e conv chunk (pre @ [CopyError err]) start) =
              enableCalls (attempt e conv chunk pre start) \<and>
            sessionRole (attempt e conv chunk (pre @ [CopyError err]) start) =
              sessionRole (attempt e conv chunk pre start) \<and>
            ledger (attempt e conv chunk (pre @ [CopyError err]) start) =
              ledger (attempt e conv chunk pre start))"
proof -
  let ?W = "onMessage e conv chunk start"
  let ?w1 = "run e conv chunk pre ?W"
  let ?cs = "getCopyStream e conv chunk ?w1"
  let ?w1' = "?w1\<lparr>streams := [], closed := ?cs # closed ?w1\<rparr>"
  let ?w2 = "processDataError e conv err (sqlRetrieve e chunk) (sqlCopy conv chunk)
       (tableName chunk) (chunkId chunk) (origRole ?w1) ?w1'"
  have W: "?W = populateTableWorker e conv chunk (log (''[loadData] Loading the data into '' @ schema conv @ ''.'' @ tableName chunk)
         None None start)"
    using assms(1) by (simp add: onMessage_def)
  have inv0: "oneStream e conv chunk ?W"
    unfolding W by (rule oneStream_populateTableWorker) (simp add: log_def assms(2))
  have pre: "admissible e conv chunk pre ?W"
    and rest: "admissible e conv chunk (CopyError err # post) ?w1"
    using assms(3) by (simp_all add: admissible_append)
  have inv: "oneStream e conv chunk ?w1" by (rule oneStream_run [OF inv0 pre])
  from rest have "streams ?w1 \<noteq> []" by simp
  with inv have p1: "paused ?w1" and s1: "streams ?w1 = [?cs]"
    by (simp_all add: oneStream_def)
  have w2: "fire e conv chunk (CopyError err) ?w1 = ?w2"
    by (simp add: s1 onCopyError_def) (simp add: getCopyStream_def)
  note f = processDataError_frame [of e conv err "sqlRetrieve e chunk" "sqlCopy conv chunk"
      "tableName chunk" "chunkId chunk" "origRole ?w1" ?w1']
    processDataError_queries [of e conv err "sqlRetrieve e chunk" "sqlCopy conv chunk"
      "tableName chunk" "chunkId chunk" "origRole ?w1" ?w1']
  have p2: "paused ?w2" and s2: "streams ?w2 = []" using f p1 by simp_all
  have a2: "admissible e conv chunk post ?w2" using rest by (simp add: w2 del: fire.simps)
  note st = stalled_run [OF p2 s2 a2]
  have full: "attempt e conv chunk (pre @ CopyError err # post) start = run e conv chunk post ?w2"
    by (simp add: attempt_def run_append w2 del: fire.simps)
  have one: "attempt e conv chunk (pre @ [CopyError err]) start = ?w2"
    by (simp add: attempt_def run_append w2 del: fire.simps)
  have zero: "attempt e conv chunk pre start = ?w1" by (simp add: attempt_def)
  have role: "origRole ?w1 = origRole ?W" by (rule origRole_run)
  have c1: "target (run e conv chunk post ?w2) = target ?w1"
    using st f by simp
  have c2: "filter isCopy (queries (run e conv chunk post ?w2)) = filter isCopy (queries ?w1)"
    using st f by simp
  have c3: "sent ?w2 = sent ?w1 @ [(tableName chunk, 0)]" using f by simp
  have c4: "released ?w2 = Suc (released ?w1)" using f by simp
  have c5: "filter isDelete (queries ?w2) =
      filter isDelete (queries ?w1) @ [DeleteFrom (chunkId chunk)]" using f by simp
  have c6: "queryFails e (DeleteFrom (chunkId chunk)) (length (queries ?w1)) = None \<longrightarrow>
      chunkId chunk \<notin> ledger ?w2 \<and>
      (truthy (origRole ?W) \<longrightarrow> enableCalls ?w2 = enableCalls ?w1 @ [the (origRole ?W)])"
  proof
    assume "queryFails e (DeleteFrom (chunkId chunk)) (length (queries ?w1)) = None"
    then have "queryFails e (DeleteFrom (chunkId chunk)) (length (queries ?w1')) = None"
      by simp
    from processDataError_restore [OF this, of conv err "sqlRetrieve e chunk"
        "sqlCopy conv chunk" "tableName chunk" "origRole ?w1"]
    show "chunkId chunk \<notin> ledger ?w2 \<and>
      (truthy (origRole ?W) \<longrightarrow> enableCalls ?w2 = enableCalls ?w1 @ [the (origRole ?W)])"
      by (simp add: role)
  qed
  have c7: "queryFails e (DeleteFrom (chunkId chunk)) (length (queries ?w1)) = Some derr \<longrightarrow>
      enableCalls ?w2 = enableCalls ?w1 \<and> sessionRole ?w2 = sessionRole ?w1 \<and>
      ledger ?w2 = ledger ?w1"
  proof
    assume "queryFails e (DeleteFrom (chunkId chunk)) (length (queries ?w1)) = Some derr"
    then have "queryFails e (DeleteFrom (chunkId chunk)) (length (queries ?w1')) = Some derr"
      by simp
    from processDataError_rejected [OF this, of conv err "sqlRetrieve e chunk"
        "sqlCopy conv chunk" "tableName chunk" "origRole ?w1"]
    show "enableCalls ?w2 = enableCalls ?w1 \<and> sessionRole ?w2 = sessionRole ?w1 \<and>
      ledger ?w2 = ledger ?w1"
      by simp
  qed
  from c1 c2 c3 c4 c5 c6 c7 show ?thesis
    unfolding full one zero by blast
qed

lemma copy_failure_stops_loading_sample:
  "target (attempt (demoEnv noReject) (demoConv 2 True) demoChunk
     ([QueryResult (rowOf ''a''), QueryResult (rowOf ''b''), CopyFinish,
       QueryResult (rowOf ''c'')] @ CopyError ''disk full'' # [])
     (initial ''origin'' {7} [])) = [''a'', ''b''] \<and>
   sent (attempt (demoEnv noReject) (demoConv 2 True) demoChunk
     ([QueryResult (rowOf ''a''), QueryResult (rowOf ''b''), CopyFinish,
       QueryResult (rowOf ''c'')] @ [CopyError ''disk full''])
     (initial ''origin'' {7} [])) = [(''orders'', 0)] \<and>
   enableCalls (attempt (demoEnv noReject) (demoConv 2 True) demoChunk
     ([QueryResult (rowOf ''a''), QueryResult (rowOf ''b''), CopyFinish,
       QueryResult (rowOf ''c'')] @ [CopyError ''disk full''])
     (initial ''origin'' {7} [])) = [''origin'']"
  using copy_failure_stops_loading
    [where e = "demoEnv noReject" and conv = "demoConv 2 True" and chunk = demoChunk
       and start = "initial ''origin'' {7} []" and err = "''disk full''" and post = "[]"
       and pre = "[QueryResult (rowOf ''a''), QueryResult (rowOf ''b''), CopyFinish,
                   QueryResult (rowOf ''c'')]"]
  by (simp add: handler_defs prim_defs sample_defs Let_def)

text \<open>
  C6 at a run in data-only mode with watermark 1 in which the copy stream of the first
  batch fails and the clean-up's DELETE is rejected as well, as on a connection that was
  lost. The claim holds for what is loaded and reported: no record is committed and the
  outcome is zero rows. The clean-up it promises is not performed: \<open>deleteChunk\<close> calls
  \<open>enableTriggers\<close> in the same \<open>try\<close> block, after the DELETE, so the captured mode
  \<open>origin\<close> is not restored and the client is released, from the \<open>finally\<close> block, with
  its session still in mode \<open>replica\<close>; the rejected DELETE is recorded and the ledger entry
  stays. On the same events with nothing rejected, the mode is restored and the entry
  deleted.
\<close>

theorem copy_failure_with_rejected_delete_skips_restore:
  "admissible (demoEnv rejectDelete) (demoConv 1 True) demoChunk
     [QueryResult (rowOf ''a''), CopyError ''disk full'']
     (onMessage (demoEnv rejectDelete) (demoConv 1 True) demoChunk (initial ''origin'' {7} [])) \<and>
   target (attempt (demoEnv rejectDelete) (demoConv 1 True) demoChunk
     [QueryResult (rowOf ''a''), CopyError ''disk full''] (initial ''origin'' {7} [])) = [] \<and>
   sent (attempt (demoEnv rejectDelete) (demoConv 1 True) demoChunk
     [QueryResult (rowOf ''a''), CopyError ''disk full''] (initial ''origin'' {7} [])) =
     [(''orders'', 0)] \<and>
   origRole (attempt (demoEnv rejectDelete) (demoConv 1 True) demoChunk
     [QueryResult (rowOf ''a''), CopyError ''disk full''] (initial ''origin'' {7} [])) =
     Some ''origin'' \<and>
   queries (attempt (demoEnv rejectDelete) (demoConv 1 True) demoChunk
     [QueryResult (rowOf ''a''), CopyError ''disk full''] (initial ''origin'' {7} [])) =
     [ShowRole, SetRole ''replica'', CopyFrom ''public'' ''orders'' '','', DeleteFrom 7] \<and>
   errors (attempt (demoEnv rejectDelete) (demoConv 1 True) demoChunk
     [QueryResult (rowOf ''a''), CopyError ''disk full''] (initial ''origin'' {7} [])) =
     [(''[populateTableWorker] disk full'', CopyFrom ''public'' ''orders'' '',''),
      (''[DataLoader::deleteChunk] connection lost'', DeleteFrom 7)] \<and>
   enableCalls (attempt (demoEnv rejectDelete) (demoConv 1 True) demoChunk
     [QueryResult (rowOf ''a''), CopyError ''disk full''] (initial ''origin'' {7} [])) = [] \<and>
   sessionRole (attempt (demoEnv rejectDelete) (demoConv 1 True) demoChunk
     [QueryResult (rowOf ''a''), CopyError ''disk full''] (initial ''origin'' {7} [])) =
     ''replica'' \<and>
   ledger (attempt (demoEnv rejectDelete) (demoConv 1 True) demoChunk
     [QueryResult (rowOf ''a''), CopyError ''disk full''] (initial ''origin'' {7} [])) = {7} \<and>
   released (attempt (demoEnv rejectDelete) (demoConv 1 True) demoChunk
     [QueryResult (rowOf ''a''), CopyError ''disk full''] (initial ''origin'' {7} [])) = 1 \<and>
   enableCalls (attempt (demoEnv noReject) (demoConv 1 True) demoChunk
     [QueryResult (rowOf ''a''), CopyError ''disk full''] (initial ''origin'' {7} [])) =
     [''origin''] \<and>
   sessionRole (attempt (demoEnv noReject) (demoConv 1 True) demoChunk
     [QueryResult (rowOf ''a''), CopyError ''disk full''] (initial ''origin'' {7} [])) =
     ''origin'' \<and>
   ledger (attempt (demoEnv noReject) (demoConv 1 True) demoChunk
     [QueryResult (rowOf ''a''), CopyError ''disk full''] (initial ''origin'' {7} [])) = {}"
  by (simp add: handler_defs prim_defs sample_defs Let_def)

subsection \<open>The batch buffer\<close>

lemma onResult_reaches_watermark:
  assumes "parse e r = Inr csv" and "dataBuffer w < length (heap w)"
    and "streamsHighWaterMark conv \<le> int (length (heap w ! dataBuffer w)) + 1"
  shows "paused (onResult e conv chunk r w) \<and>
         signals (onResult e conv chunk r w) = signals w @ [chunkBuffered] \<and>
         streams (onResult e conv chunk r w) =
           streams w @ [getCopyStream e conv chunk w] \<and>
         queries (onResult e conv chunk r w) = queries w @ [sqlCopy conv chunk]"
  using assms
  by (simp add: onResult_def onChunkBuffered_def getCopyStream_def Let_def)

lemma onCopyFinish_keeps_result_buffer:
  assumes "dataBuffer w < length (heap w)"
  shows "dataBuffer (onCopyFinish cs w) = dataBuffer w \<and>
         heap (onCopyFinish cs w) ! dataBuffer w = heap w ! dataBuffer w \<and>
         \<not> paused (onCopyFinish cs w) \<and>
         signals (onCopyFinish cs w) = signals w @ [chunkLoaded]"
  using assms
  by (simp add: onCopyFinish_def onChunkLoaded_def Let_def nth_append)

lemma result_buffer_only_grows:
  assumes "dataBuffer w < length (heap w)"
  shows "dataBuffer (fire e conv chunk ev w) = dataBuffer w \<and>
         length (heap w) \<le> length (heap (fire e conv chunk ev w)) \<and>
         length (heap w ! dataBuffer w) \<le>
           length (heap (fire e conv chunk ev w) ! dataBuffer w)"
proof (cases ev)
  case (QueryError err)
  then show ?thesis
    using processDataError_frame [of e conv err "sqlRetrieve e chunk" "sqlCopy conv chunk"
      "tableName chunk" "chunkId chunk" "origRole w" "w\<lparr>srcLive := False\<rparr>"]
    by (simp add: onQueryError_def)
next
  case (QueryResult r)
  show ?thesis
  proof (cases "parse e r")
    case (Inl err)
    then show ?thesis
      using processDataError_frame [of e conv err NoSql NoSql "originalTableName e chunk"
        "chunkId chunk" "origRole w" w]
      by (simp add: QueryResult onResult_rejected [OF Inl])
  next
    case (Inr csv)
    with assms show ?thesis
      by (simp add: QueryResult onResult_def onChunkBuffered_def Let_def)
  qed
next
  case QueryEnd
  then show ?thesis by (simp add: onEnd_def)
next
  case CopyFinish
  show ?thesis
  proof (cases "streams w")
    case Nil
    then show ?thesis by (simp add: CopyFinish)
  next
    case (Cons cs rest)
    with assms show ?thesis
      by (simp add: CopyFinish onCopyFinish_def onChunkLoaded_def Let_def nth_append)
  qed
next
  case (CopyError err)
  show ?thesis
  proof (cases "streams w")
    case Nil
    then show ?thesis by (simp add: CopyError)
  next
    case (Cons cs rest)
    then show ?thesis
      using processDataError_frame [of e conv err "cs_sql cs" "cs_sqlCopy cs" "cs_tableName cs"
        "cs_dataPoolId cs" "cs_role cs" "w\<lparr>streams := rest, closed := cs # closed w\<rparr>"]
      by (simp add: CopyError onCopyError_def)
  qed
qed

text \<open>
  C3 at a run with watermark 2. After the first batch \<open>a\<close>, \<open>b\<close> is committed,
  \<open>chunkLoaded\<close> is emitted and the cursor is resumed, but the array the \<open>result\<close> handler
  appends to still holds \<open>a\<close>, \<open>b\<close>: the handler of \<open>finish\<close> assigns the empty array
  to \<open>getCopyStream\<close>'s own parameter. The next row makes it \<open>a\<close>, \<open>b\<close>, \<open>c\<close>, the
  second batch is that whole array, and the target ends with \<open>a\<close>, \<open>b\<close> twice. After
  a copy stream that fails, the array is not emptied either.
\<close>

theorem finish_leaves_result_buffer_filled:
  "admissible (demoEnv noReject) (demoConv 2 False) demoChunk
     [QueryResult (rowOf ''a''), QueryResult (rowOf ''b''), CopyFinish,
      QueryResult (rowOf ''c''), CopyFinish]
     (onMessage (demoEnv noReject) (demoConv 2 False) demoChunk (initial ''origin'' {7} [])) \<and>
   signals (attempt (demoEnv noReject) (demoConv 2 False) demoChunk
     [QueryResult (rowOf ''a''), QueryResult (rowOf ''b''), CopyFinish]
     (initial ''origin'' {7} [])) = [chunkBuffered, chunkLoaded] \<and>
   \<not> paused (attempt (demoEnv noReject) (demoConv 2 False) demoChunk
     [QueryResult (rowOf ''a''), QueryResult (rowOf ''b''), CopyFinish]
     (initial ''origin'' {7} [])) \<and>
   heap (attempt (demoEnv noReject) (demoConv 2 False) demoChunk
     [QueryResult (rowOf ''a''), QueryResult (rowOf ''b''), CopyFinish]
     (initial ''origin'' {7} [])) !
   dataBuffer (attempt (demoEnv noReject) (demoConv 2 False) demoChunk
     [QueryResult (rowOf ''a''), QueryResult (rowOf ''b''), CopyFinish]
     (initial ''origin'' {7} [])) = [''a'', ''b''] \<and>
   heap (attempt (demoEnv noReject) (demoConv 2 False) demoChunk
     [QueryResult (rowOf ''a''), QueryResult (rowOf ''b''), CopyFinish,
      QueryResult (rowOf ''c'')]
     (initial ''origin'' {7} [])) !
   dataBuffer (attempt (demoEnv noReject) (demoConv 2 False) demoChunk
     [QueryResult (rowOf ''a''), QueryResult (rowOf ''b''), CopyFinish,
      QueryResult (rowOf ''c'')]
     (initial ''origin'' {7} [])) = [''a'', ''b'', ''c''] \<and>
   target (attempt (demoEnv noReject) (demoConv 2 False) demoChunk
     [QueryResult (rowOf ''a''), QueryResult (rowOf ''b''), CopyFinish,
      QueryResult (rowOf ''c''), CopyFinish]
     (initial ''origin'' {7} [])) = [''a'', ''b'', ''a'', ''b'', ''c''] \<and>
   heap (attempt (demoEnv noReject) (demoConv 2 False) demoChunk
     [QueryResult (rowOf ''a''), QueryResult (rowOf ''b''), CopyError ''disk full'']
     (initial ''origin'' {7} [])) !
   dataBuffer (attempt (demoEnv noReject) (demoConv 2 False) demoChunk
     [QueryResult (rowOf ''a''), QueryResult (rowOf ''b''), CopyError ''disk full'']
     (initial ''origin'' {7} [])) = [''a'', ''b'']"
  by (simp add: handler_defs prim_defs sample_defs Let_def)

text \<open>
  C7 at a run with watermark 1. Each row that brings the buffer to the watermark or beyond
  emits \<open>chunkBuffered\<close> and pauses the cursor; but since the buffer is never emptied, at
  the third such signal it holds three records, two more than the watermark.
\<close>

theorem buffer_outgrows_watermark:
  "streamsHighWaterMark (demoConv 1 False) = 1 \<and>
   admissible (demoEnv noReject) (demoConv 1 False) demoChunk
     [QueryResult (rowOf ''a''), CopyFinish, QueryResult (rowOf ''b''), CopyFinish,
      QueryResult (rowOf ''c'')]
     (onMessage (demoEnv noReject) (demoConv 1 False) demoChunk (initial ''origin'' {7} [])) \<and>
   signals (attempt (demoEnv noReject) (demoConv 1 False) demoChunk
     [QueryResult (rowOf ''a''), CopyFinish, QueryResult (rowOf ''b''), CopyFinish,
      QueryResult (rowOf ''c'')] (initial ''origin'' {7} [])) =
     [chunkBuffered, chunkLoaded, chunkBuffered, chunkLoaded, chunkBuffered] \<and>
   paused (attempt (demoEnv noReject) (demoConv 1 False) demoChunk
     [QueryResult (rowOf ''a''), CopyFinish, QueryResult (rowOf ''b''), CopyFinish,
      QueryResult (rowOf ''c'')] (initial ''origin'' {7} [])) \<and>
   length (heap (attempt (demoEnv noReject) (demoConv 1 False) demoChunk
     [QueryResult (rowOf ''a''), CopyFinish, QueryResult (rowOf ''b''), CopyFinish,
      QueryResult (rowOf ''c'')] (initial ''origin'' {7} [])) !
     dataBuffer (attempt (demoEnv noReject) (demoConv 1 False) demoChunk
     [QueryResult (rowOf ''a''), CopyFinish, QueryResult (rowOf ''b''), CopyFinish,
      QueryResult (rowOf ''c'')] (initial ''origin'' {7} []))) = 3"
  by (simp add: handler_defs prim_defs sample_defs Let_def)

subsection \<open>Runs that end without clean-up, or with more than one\<close>

text \<open>
  C1 at a run of the success path. In data-only mode with watermark 2, two rows are encoded,
  their batch is copied and committed, and the cursor ends; no event is left to occur. The
  mode \<open>origin\<close> was captured, yet \<open>enableTriggers\<close> is never called and the session,
  which was in mode \<open>origin\<close> before the attempt, is left in mode \<open>replica\<close>.
\<close>

theorem success_path_leaves_triggers_disabled:
  "sessionRole (initial ''origin'' {7} []) = ''origin'' \<and>
   admissible (demoEnv noReject) (demoConv 2 True) demoChunk
     [QueryResult (rowOf ''a''), QueryResult (rowOf ''b''), CopyFinish, QueryEnd]
     (onMessage (demoEnv noReject) (demoConv 2 True) demoChunk (initial ''origin'' {7} [])) \<and>
   target (attempt (demoEnv noReject) (demoConv 2 True) demoChunk
     [QueryResult (rowOf ''a''), QueryResult (rowOf ''b''), CopyFinish, QueryEnd]
     (initial ''origin'' {7} [])) = [''a'', ''b''] \<and>
   origRole (attempt (demoEnv noReject) (demoConv 2 True) demoChunk
     [QueryResult (rowOf ''a''), QueryResult (rowOf ''b''), CopyFinish, QueryEnd]
     (initial ''origin'' {7} [])) = Some ''origin'' \<and>
   enableCalls (attempt (demoEnv noReject) (demoConv 2 True) demoChunk
     [QueryResult (rowOf ''a''), QueryResult (rowOf ''b''), CopyFinish, QueryEnd]
     (initial ''origin'' {7} [])) = [] \<and>
   sessionRole (attempt (demoEnv noReject) (demoConv 2 True) demoChunk
     [QueryResult (rowOf ''a''), QueryResult (rowOf ''b''), CopyFinish, QueryEnd]
     (initial ''origin'' {7} [])) = ''replica'' \<and>
   \<not> srcLive (attempt (demoEnv noReject) (demoConv 2 True) demoChunk
     [QueryResult (rowOf ''a''), QueryResult (rowOf ''b''), CopyFinish, QueryEnd]
     (initial ''origin'' {7} [])) \<and>
   streams (attempt (demoEnv noReject) (demoConv 2 True) demoChunk
     [QueryResult (rowOf ''a''), QueryResult (rowOf ''b''), CopyFinish, QueryEnd]
     (initial ''origin'' {7} [])) = []"
  by (simp add: handler_defs prim_defs sample_defs Let_def)

text \<open>
  C2 at two runs. On the success path (watermark 1, one row, its batch committed, the
  cursor ends) the target client acquired for the attempt is never released. When the
  encoder rejects two rows of a chunk, the one client acquired is released twice.
\<close>

theorem success_path_never_releases_client:
  "admissible (demoEnv noReject) (demoConv 1 False) demoChunk
     [QueryResult (rowOf ''a''), CopyFinish, QueryEnd]
     (onMessage (demoEnv noReject) (demoConv 1 False) demoChunk (initial ''origin'' {7} [])) \<and>
   acquired (attempt (demoEnv noReject) (demoConv 1 False) demoChunk
     [QueryResult (rowOf ''a''), CopyFinish, QueryEnd] (initial ''origin'' {7} [])) = 1 \<and>
   released (attempt (demoEnv noReject) (demoConv 1 False) demoChunk
     [QueryResult (rowOf ''a''), CopyFinish, QueryEnd] (initial ''origin'' {7} [])) = 0 \<and>
   \<not> srcLive (attempt (demoEnv noReject) (demoConv 1 False) demoChunk
     [QueryResult (rowOf ''a''), CopyFinish, QueryEnd] (initial ''origin'' {7} [])) \<and>
   streams (attempt (demoEnv noReject) (demoConv 1 False) demoChunk
     [QueryResult (rowOf ''a''), CopyFinish, QueryEnd] (initial ''origin'' {7} [])) = [] \<and>
   admissible (demoEnv noReject) (demoConv 1 False) demoChunk
     [QueryResult [], QueryResult [], QueryEnd]
     (onMessage (demoEnv noReject) (demoConv 1 False) demoChunk (initial ''origin'' {7} [])) \<and>
   acquired (attempt (demoEnv noReject) (demoConv 1 False) demoChunk
     [QueryResult [], QueryResult [], QueryEnd] (initial ''origin'' {7} [])) = 1 \<and>
   released (attempt (demoEnv noReject) (demoConv 1 False) demoChunk
     [QueryResult [], QueryResult [], QueryEnd] (initial ''origin'' {7} [])) = 2"
  by (simp add: handler_defs prim_defs sample_defs Let_def)

text \<open>
  C5 at a run with watermark 1 in which the encoder rejects the first row. The failure
  clean-up runs (zero-row outcome sent, ledger entry deleted, mode restored, client
  released), but the chunk is not aborted: the cursor stays live and unpaused, the next row
  is encoded, a COPY is issued on the client already released, and its record is committed
  to the target of a chunk reported as zero rows.
\<close>

theorem rejected_row_does_not_abort_chunk:
  "admissible (demoEnv noReject) (demoConv 1 True) demoChunk
     [QueryResult [], QueryResult (rowOf ''a''), CopyFinish, QueryEnd]
     (onMessage (demoEnv noReject) (demoConv 1 True) demoChunk (initial ''origin'' {7} [])) \<and>
   sent (attempt (demoEnv noReject) (demoConv 1 True) demoChunk
     [QueryResult []] (initial ''origin'' {7} [])) = [(''orders'', 0)] \<and>
   released (attempt (demoEnv noReject) (demoConv 1 True) demoChunk
     [QueryResult []] (initial ''origin'' {7} [])) = 1 \<and>
   ledger (attempt (demoEnv noReject) (demoConv 1 True) demoChunk
     [QueryResult []] (initial ''origin'' {7} [])) = {} \<and>
   srcLive (attempt (demoEnv noReject) (demoConv 1 True) demoChunk
     [QueryResult []] (initial ''origin'' {7} [])) \<and>
   \<not> paused (attempt (demoEnv noReject) (demoConv 1 True) demoChunk
     [QueryResult []] (initial ''origin'' {7} [])) \<and>
   queries (attempt (demoEnv noReject) (demoConv 1 True) demoChunk
     [QueryResult [], QueryResult (rowOf ''a''), CopyFinish, QueryEnd]
     (initial ''origin'' {7} [])) =
     [ShowRole, SetRole ''replica'', DeleteFrom 7, SetRole ''origin'',
      CopyFrom ''public'' ''orders'' '',''] \<and>
   target (attempt (demoEnv noReject) (demoConv 1 True) demoChunk
     [QueryResult [], QueryResult (rowOf ''a''), CopyFinish, QueryEnd]
     (initial ''origin'' {7} [])) = [''a''] \<and>
   sent (attempt (demoEnv noReject) (demoConv 1 True) demoChunk
     [QueryResult [], QueryResult (rowOf ''a''), CopyFinish, QueryEnd]
     (initial ''origin'' {7} [])) = [(''orders'', 0)]"
  by (simp add: handler_defs prim_defs sample_defs Let_def)

end
